theory Spec2Isabelle
  imports Main "HOL-Library.AList"
begin

section \<open>The key-value store backends of \<open>service/backends.py\<close>\<close>

text \<open>
  The two storage backends of the service, \<open>InMemoryKvStore\<close> and \<open>LocalDiskKvStore\<close>,
  as pure functions with the state passed explicitly. A method that raises returns
  \<open>Inl\<close> of the exception, a method that returns gives \<open>Inr\<close> of the Python value it
  returns (\<open>PyNone\<close> for a method that falls off its end). The calls to \<open>logger.info\<close>
  and the lock of the disk backend have no effect on a sequential run and are left out.
\<close>

subsection \<open>Values, exceptions and the dictionary\<close>

text \<open>
  A key is the string taken from the URL path. A value is what the request body's
  \<open>value\<close> field can hold: a string, a number (an integer here) or a boolean; the
  backends store and return values and never inspect them. \<open>PyNone\<close> is Python's
  \<open>None\<close>, which is also what a JSON \<open>null\<close> decodes to.
\<close>

type_synonym key = string

datatype pyval = PyNone | PyStr string | PyNum int | PyBool bool

text \<open>
  A Python \<open>dict\<close> keeps its entries in insertion order; it is modelled as an
  association list. \<open>d[k] = v\<close> overwrites the entry of \<open>k\<close> in place or appends a new
  one, \<open>d.pop(k)\<close> removes the entry.
\<close>

type_synonym kv_store = "(key \<times> pyval) list"

text \<open>
  The exceptions. \<open>KeyConflict\<close> holds its three attributes \<open>key\<close>, \<open>old_value\<close>
  and \<open>new_value\<close>; \<open>KeyError\<close>, \<open>TypeError\<close> and \<open>AttributeError\<close> are what the
  statements of the backends raise on the object they work on. \<open>pickle.load\<close> raises
  \<open>EOFError\<close> on an empty file and \<open>UnpicklingError\<close>, \<open>ValueError\<close>,
  \<open>ModuleNotFoundError\<close> or any other exception on other bytes it cannot decode (the
  bytes \<open>b"coperator\ngetitem\n(}S'k'\ntR."\<close> make it raise \<open>KeyError('k')\<close>).
  \<open>OSError\<close> is what a write raises that the operating system refuses, and
  \<open>FileNotFoundError\<close> what opening a missing file for reading raises.
\<close>

datatype error =
    KeyConflict pyval pyval pyval
  | KeyError key
  | TypeError
  | AttributeError
  | EOFError
  | UnpicklingError
  | ValueError
  | ModuleNotFoundError
  | OSError
  | FileNotFoundError

text \<open>
  \<open>KeyConflict.__init__(self, key, old_value, new_value)\<close> has three required positional
  parameters: a call with any other number of arguments raises \<open>TypeError\<close> instead of
  building the exception.
\<close>

fun KeyConflict_init :: "pyval list \<Rightarrow> error" where
  "KeyConflict_init [k, old_value, new_value] = KeyConflict k old_value new_value"
| "KeyConflict_init args = TypeError"

definition dict_contains :: "key \<Rightarrow> kv_store \<Rightarrow> bool" where
  "dict_contains k d = (map_of d k \<noteq> None)"

definition dict_getitem :: "kv_store \<Rightarrow> key \<Rightarrow> error + pyval" where
  "dict_getitem d k = (case map_of d k of None \<Rightarrow> Inl (KeyError k) | Some v \<Rightarrow> Inr v)"

definition dict_setitem :: "key \<Rightarrow> pyval \<Rightarrow> kv_store \<Rightarrow> kv_store" where
  "dict_setitem k v d = AList.update k v d"

definition dict_pop :: "key \<Rightarrow> kv_store \<Rightarrow> error + (pyval \<times> kv_store)" where
  "dict_pop k d =
     (case map_of d k of
        None \<Rightarrow> Inl (KeyError k)
      | Some v \<Rightarrow> Inr (v, AList.delete k d))"

text \<open>
  \<open>pickle.load\<close> returns whatever object the file is the pickle of. Besides the
  dictionaries, the model has the built-in values that are no dictionary: a scalar, and a
  list, a tuple or a set of scalars. On these the four statements that the backends use
  behave as follows (for a key that is a string): \<open>key in x\<close> is the substring test
  on a string, the membership test on a list, tuple or set, and raises \<open>TypeError\<close> on
  \<open>None\<close>, a number or a boolean; \<open>x[key]\<close> and \<open>x[key] = value\<close> raise \<open>TypeError\<close>;
  \<open>x.pop(key)\<close> raises \<open>TypeError\<close> on a list or set and \<open>AttributeError\<close> on the
  others, which have no \<open>pop\<close>.
\<close>

datatype nondict = Scalar pyval | PyList "pyval list" | PyTuple "pyval list" | PySet "pyval list"

datatype pyobj = Dict kv_store | NonDict nondict

fun str_contains :: "string \<Rightarrow> string \<Rightarrow> bool" where
  "str_contains k [] = (k = [])"
| "str_contains k (c # cs) = (take (length k) (c # cs) = k \<or> str_contains k cs)"

fun nondict_contains :: "key \<Rightarrow> nondict \<Rightarrow> error + bool" where
  "nondict_contains k (Scalar (PyStr s)) = Inr (str_contains k s)"
| "nondict_contains k (Scalar v) = Inl TypeError"
| "nondict_contains k (PyList xs) = Inr (PyStr k \<in> set xs)"
| "nondict_contains k (PyTuple xs) = Inr (PyStr k \<in> set xs)"
| "nondict_contains k (PySet xs) = Inr (PyStr k \<in> set xs)"

fun nondict_pop :: "nondict \<Rightarrow> error" where
  "nondict_pop (Scalar v) = AttributeError"
| "nondict_pop (PyList xs) = TypeError"
| "nondict_pop (PyTuple xs) = AttributeError"
| "nondict_pop (PySet xs) = TypeError"

definition py_contains :: "key \<Rightarrow> pyobj \<Rightarrow> error + bool" where
  "py_contains k obj =
     (case obj of Dict d \<Rightarrow> Inr (dict_contains k d) | NonDict x \<Rightarrow> nondict_contains k x)"

definition py_getitem :: "pyobj \<Rightarrow> key \<Rightarrow> error + pyval" where
  "py_getitem obj k = (case obj of Dict d \<Rightarrow> dict_getitem d k | NonDict x \<Rightarrow> Inl TypeError)"

definition py_setitem :: "key \<Rightarrow> pyval \<Rightarrow> pyobj \<Rightarrow> error + pyobj" where
  "py_setitem k v obj =
     (case obj of Dict d \<Rightarrow> Inr (Dict (dict_setitem k v d)) | NonDict x \<Rightarrow> Inl TypeError)"

definition py_pop :: "key \<Rightarrow> pyobj \<Rightarrow> error + (pyval \<times> pyobj)" where
  "py_pop k obj =
     (case obj of
        Dict d \<Rightarrow> (case dict_pop k d of Inl e \<Rightarrow> Inl e | Inr (v, d') \<Rightarrow> Inr (v, Dict d'))
      | NonDict x \<Rightarrow> Inl (nondict_pop x))"

subsection \<open>\<open>InMemoryKvStore\<close>\<close>

text \<open>The state of an instance is its attribute \<open>kv_store\<close>, empty after \<open>__init__\<close>.\<close>

definition InMemory_init :: kv_store where
  "InMemory_init = []"

definition InMemory_create :: "key \<Rightarrow> pyval \<Rightarrow> kv_store \<Rightarrow> (error + pyval) \<times> kv_store" where
  "InMemory_create k v kv =
     (if dict_contains k kv then
        (case dict_getitem kv k of
           Inl e \<Rightarrow> (Inl e, kv)
         | Inr old \<Rightarrow> (Inl (KeyConflict_init [PyStr k, old, v]), kv))
      else (Inr PyNone, dict_setitem k v kv))"

definition InMemory_replace :: "key \<Rightarrow> pyval \<Rightarrow> kv_store \<Rightarrow> (error + pyval) \<times> kv_store" where
  "InMemory_replace k v kv =
     (if \<not> dict_contains k kv then (Inr PyNone, dict_setitem k v kv)
      else
        (case dict_getitem kv k of
           Inl e \<Rightarrow> (Inl e, kv)
         | Inr old_value \<Rightarrow> (Inr old_value, dict_setitem k v kv)))"

definition InMemory_delete :: "key \<Rightarrow> kv_store \<Rightarrow> (error + pyval) \<times> kv_store" where
  "InMemory_delete k kv =
     (case dict_pop k kv of
        Inl e \<Rightarrow> (Inl e, kv)
      | Inr (v, kv') \<Rightarrow> (Inr v, kv'))"

definition InMemory_get :: "key \<Rightarrow> kv_store \<Rightarrow> (error + pyval) \<times> kv_store" where
  "InMemory_get k kv =
     (case dict_getitem kv k of
        Inl e \<Rightarrow> (Inl e, kv)
      | Inr v \<Rightarrow> (Inr v, kv))"

subsection \<open>The backing file\<close>

text \<open>
  What the file \<open>kv_file\<close> holds: the pickle of a dictionary; the pickle of a value
  that is no dictionary; nothing at all (the file right after it was opened with mode
  \<open>'wb'\<close>, which truncates it); or other bytes that \<open>pickle.load\<close> cannot decode,
  \<open>Garbage e\<close> standing for bytes on which it raises \<open>e\<close>. A pickle ends with its
  \<open>STOP\<close> opcode, so a pickle that was written only in part is such garbage. The file
  system is the file, absent or present, and the log of the writing steps completed on
  it so far, newest first.
\<close>

datatype file_data = Pickle kv_store | Pickle_other nondict | Empty | Garbage error

datatype io_event = Open_wb | Dump kv_store | Dump_other nondict

record filesystem =
  kv_file :: "file_data option"
  io_log :: "io_event list"

definition isfile :: "filesystem \<Rightarrow> bool" where
  "isfile fs = (kv_file fs \<noteq> None)"

definition open_rb :: "filesystem \<Rightarrow> error + file_data" where
  "open_rb fs = (case kv_file fs of None \<Rightarrow> Inl FileNotFoundError | Some d \<Rightarrow> Inr d)"

definition open_wb :: "filesystem \<Rightarrow> filesystem" where
  "open_wb fs = fs\<lparr>kv_file := Some Empty, io_log := Open_wb # io_log fs\<rparr>"

definition pickle_load :: "file_data \<Rightarrow> error + pyobj" where
  "pickle_load d =
     (case d of
        Pickle kv \<Rightarrow> Inr (Dict kv)
      | Pickle_other x \<Rightarrow> Inr (NonDict x)
      | Empty \<Rightarrow> Inl EOFError
      | Garbage e \<Rightarrow> Inl e)"

text \<open>
  \<open>pickle.dump(obj, f)\<close> followed by the end of the \<open>with\<close> block, which closes
  \<open>f\<close>: \<open>pickle.dump\<close> writes into the buffer of the file object, and the whole pickle
  is in the file once the close has flushed the buffer.
\<close>

definition pickle_dump :: "pyobj \<Rightarrow> filesystem \<Rightarrow> filesystem" where
  "pickle_dump obj fs =
     (case obj of
        Dict kv \<Rightarrow> fs\<lparr>kv_file := Some (Pickle kv), io_log := Dump kv # io_log fs\<rparr>
      | NonDict x \<Rightarrow> fs\<lparr>kv_file := Some (Pickle_other x), io_log := Dump_other x # io_log fs\<rparr>)"

subsection \<open>\<open>LocalDiskKvStore\<close>\<close>

text \<open>
  An instance holds the file name and a lock only, so its state is the file system.
  The static methods \<open>_create\<close>, \<open>_replace\<close>, \<open>_delete\<close> and \<open>_get\<close> are
  \<open>LocalDisk_op_create\<close> and so on; they get the open file and give back the
  object to write and the value to return. \<open>LocalDisk_safe_op\<close> and the four methods
  built on it are the run of \<open>_safe_op\<close> in which the write step goes through;
  \<open>LocalDisk_safe_op_io\<close> below is the run in any environment.
\<close>

definition LocalDisk_init :: "filesystem \<Rightarrow> filesystem" where
  "LocalDisk_init fs = (if \<not> isfile fs then pickle_dump (Dict []) (open_wb fs) else fs)"

definition LocalDisk_safe_op ::
  "(file_data \<Rightarrow> error + (pyobj \<times> pyval)) \<Rightarrow> filesystem \<Rightarrow> (error + pyval) \<times> filesystem" where
  "LocalDisk_safe_op kv_op fs =
     (case open_rb fs of
        Inl e \<Rightarrow> (Inl e, fs)
      | Inr f \<Rightarrow>
          (case kv_op f of
             Inl e \<Rightarrow> (Inl e, fs)
           | Inr (kv_store, v) \<Rightarrow> (Inr v, pickle_dump kv_store (open_wb fs))))"

definition LocalDisk_op_create :: "key \<Rightarrow> pyval \<Rightarrow> file_data \<Rightarrow> error + (pyobj \<times> pyval)" where
  "LocalDisk_op_create k v open_file =
     (case pickle_load open_file of
        Inl e \<Rightarrow> Inl e
      | Inr kv_store \<Rightarrow>
          (case py_contains k kv_store of
             Inl e \<Rightarrow> Inl e
           | Inr present \<Rightarrow>
               if present then
                 (case py_getitem kv_store k of
                    Inl e \<Rightarrow> Inl e
                  | Inr old \<Rightarrow> Inl (KeyConflict_init [PyStr k, old]))
               else
                 (case py_setitem k v kv_store of
                    Inl e \<Rightarrow> Inl e
                  | Inr kv_store' \<Rightarrow> Inr (kv_store', v))))"

definition LocalDisk_op_replace :: "key \<Rightarrow> pyval \<Rightarrow> file_data \<Rightarrow> error + (pyobj \<times> pyval)" where
  "LocalDisk_op_replace k v open_file =
     (case pickle_load open_file of
        Inl e \<Rightarrow> Inl e
      | Inr kv_store \<Rightarrow>
          (case py_contains k kv_store of
             Inl e \<Rightarrow> Inl e
           | Inr present \<Rightarrow>
               (case (if \<not> present then Inr PyNone else py_getitem kv_store k) of
                  Inl e \<Rightarrow> Inl e
                | Inr old_value \<Rightarrow>
                    (case py_setitem k v kv_store of
                       Inl e \<Rightarrow> Inl e
                     | Inr kv_store' \<Rightarrow> Inr (kv_store', old_value)))))"

definition LocalDisk_op_delete :: "key \<Rightarrow> file_data \<Rightarrow> error + (pyobj \<times> pyval)" where
  "LocalDisk_op_delete k open_file =
     (case pickle_load open_file of
        Inl e \<Rightarrow> Inl e
      | Inr kv_store \<Rightarrow>
          (case py_pop k kv_store of
             Inl e \<Rightarrow> Inl e
           | Inr (v, kv_store') \<Rightarrow> Inr (kv_store', v)))"

definition LocalDisk_op_get :: "key \<Rightarrow> file_data \<Rightarrow> error + (pyobj \<times> pyval)" where
  "LocalDisk_op_get k open_file =
     (case pickle_load open_file of
        Inl e \<Rightarrow> Inl e
      | Inr kv_store \<Rightarrow>
          (case py_getitem kv_store k of
             Inl e \<Rightarrow> Inl e
           | Inr v \<Rightarrow> Inr (kv_store, v)))"

text \<open>\<open>create\<close> drops what \<open>_safe_op\<close> returns; the other three methods return it.\<close>

definition LocalDisk_create :: "key \<Rightarrow> pyval \<Rightarrow> filesystem \<Rightarrow> (error + pyval) \<times> filesystem" where
  "LocalDisk_create k v fs =
     (case LocalDisk_safe_op (LocalDisk_op_create k v) fs of
        (Inl e, fs') \<Rightarrow> (Inl e, fs')
      | (Inr r, fs') \<Rightarrow> (Inr PyNone, fs'))"

definition LocalDisk_replace :: "key \<Rightarrow> pyval \<Rightarrow> filesystem \<Rightarrow> (error + pyval) \<times> filesystem" where
  "LocalDisk_replace k v fs = LocalDisk_safe_op (LocalDisk_op_replace k v) fs"

definition LocalDisk_delete :: "key \<Rightarrow> filesystem \<Rightarrow> (error + pyval) \<times> filesystem" where
  "LocalDisk_delete k fs = LocalDisk_safe_op (LocalDisk_op_delete k) fs"

definition LocalDisk_get :: "key \<Rightarrow> filesystem \<Rightarrow> (error + pyval) \<times> filesystem" where
  "LocalDisk_get k fs = LocalDisk_safe_op (LocalDisk_op_get k) fs"

subsection \<open>Requests and runs\<close>

text \<open>
  The four requests that \<open>kv_operation\<close> dispatches on (POST, PUT, DELETE, GET), and a
  run of requests against one backend. A request that raises is answered with an error
  response and the next request is served, so a run goes on after a failure.
\<close>

datatype request = Create key pyval | Replace key pyval | Delete key | Get key

fun InMemory_apply :: "request \<Rightarrow> kv_store \<Rightarrow> (error + pyval) \<times> kv_store" where
  "InMemory_apply (Create k v) kv = InMemory_create k v kv"
| "InMemory_apply (Replace k v) kv = InMemory_replace k v kv"
| "InMemory_apply (Delete k) kv = InMemory_delete k kv"
| "InMemory_apply (Get k) kv = InMemory_get k kv"

fun LocalDisk_apply :: "request \<Rightarrow> filesystem \<Rightarrow> (error + pyval) \<times> filesystem" where
  "LocalDisk_apply (Create k v) fs = LocalDisk_create k v fs"
| "LocalDisk_apply (Replace k v) fs = LocalDisk_replace k v fs"
| "LocalDisk_apply (Delete k) fs = LocalDisk_delete k fs"
| "LocalDisk_apply (Get k) fs = LocalDisk_get k fs"

fun InMemory_run :: "request list \<Rightarrow> kv_store \<Rightarrow> kv_store" where
  "InMemory_run [] kv = kv"
| "InMemory_run (r # rs) kv = InMemory_run rs (snd (InMemory_apply r kv))"

fun LocalDisk_run :: "request list \<Rightarrow> filesystem \<Rightarrow> filesystem" where
  "LocalDisk_run [] fs = fs"
| "LocalDisk_run (r # rs) fs = LocalDisk_run rs (snd (LocalDisk_apply r fs))"

text \<open>
  The write path of \<open>_safe_op\<close> works on the backing file itself:
  \<open>open(self.filename, 'wb')\<close> truncates it, \<open>pickle.dump(kv_store, f)\<close> writes into the
  buffer of \<open>f\<close>, and the bytes reach the file when the buffer is flushed: in between
  when it runs over, and at the end of the \<open>with\<close> block, which closes \<open>f\<close>. A
  \<open>write_progress\<close> says how far a run of the write path has got on disk when it stops,
  be it that a statement raises \<open>OSError\<close> or that the process is killed: the open has
  not happened (it raised), the file is truncated and holds nothing yet (so also after
  \<open>pickle.dump\<close> has returned with the pickle still in the buffer), a part of the
  pickle is in the file (\<open>e\<close> being what \<open>pickle.load\<close> raises on that part), or the
  whole pickle is.
\<close>

datatype write_progress = Not_opened | Opened_empty | Part_on_disk error | All_on_disk

definition write_path_at :: "write_progress \<Rightarrow> pyobj \<Rightarrow> filesystem \<Rightarrow> filesystem" where
  "write_path_at w obj fs =
     (case w of
        Not_opened \<Rightarrow> fs
      | Opened_empty \<Rightarrow> open_wb fs
      | Part_on_disk e \<Rightarrow> (open_wb fs)\<lparr>kv_file := Some (Garbage e)\<rparr>
      | All_on_disk \<Rightarrow> pickle_dump obj (open_wb fs))"

text \<open>
  \<open>_safe_op\<close> in an environment in which the write path gets as far as \<open>w\<close>: with
  \<open>All_on_disk\<close> the operation returns, otherwise it raises \<open>OSError\<close> from the write
  path and leaves the file as far as it was written.
\<close>

definition LocalDisk_safe_op_io ::
  "write_progress \<Rightarrow> (file_data \<Rightarrow> error + (pyobj \<times> pyval)) \<Rightarrow> filesystem
     \<Rightarrow> (error + pyval) \<times> filesystem" where
  "LocalDisk_safe_op_io w kv_op fs =
     (case open_rb fs of
        Inl e \<Rightarrow> (Inl e, fs)
      | Inr f \<Rightarrow>
          (case kv_op f of
             Inl e \<Rightarrow> (Inl e, fs)
           | Inr (kv_store, v) \<Rightarrow>
               (case w of
                  All_on_disk \<Rightarrow> (Inr v, write_path_at w kv_store fs)
                | _ \<Rightarrow> (Inl OSError, write_path_at w kv_store fs))))"

definition LocalDisk_create_io ::
  "write_progress \<Rightarrow> key \<Rightarrow> pyval \<Rightarrow> filesystem \<Rightarrow> (error + pyval) \<times> filesystem" where
  "LocalDisk_create_io w k v fs =
     (case LocalDisk_safe_op_io w (LocalDisk_op_create k v) fs of
        (Inl e, fs') \<Rightarrow> (Inl e, fs')
      | (Inr r, fs') \<Rightarrow> (Inr PyNone, fs'))"

fun LocalDisk_apply_io ::
  "write_progress \<Rightarrow> request \<Rightarrow> filesystem \<Rightarrow> (error + pyval) \<times> filesystem" where
  "LocalDisk_apply_io w (Create k v) fs = LocalDisk_create_io w k v fs"
| "LocalDisk_apply_io w (Replace k v) fs = LocalDisk_safe_op_io w (LocalDisk_op_replace k v) fs"
| "LocalDisk_apply_io w (Delete k) fs = LocalDisk_safe_op_io w (LocalDisk_op_delete k) fs"
| "LocalDisk_apply_io w (Get k) fs = LocalDisk_safe_op_io w (LocalDisk_op_get k) fs"

text \<open>
  What the next operation reads from the file: every one of the four static methods
  starts with \<open>pickle.load\<close> on the file that \<open>_safe_op\<close> opened with mode \<open>'rb'\<close>.
\<close>

definition read_store :: "filesystem \<Rightarrow> error + pyobj" where
  "read_store fs = (case open_rb fs of Inl e \<Rightarrow> Inl e | Inr f \<Rightarrow> pickle_load f)"

text \<open>The file holds the pickle of a dictionary in which no key occurs twice.\<close>

definition holds_unique_store :: "filesystem \<Rightarrow> bool" where
  "holds_unique_store fs =
     (case kv_file fs of Some (Pickle kv) \<Rightarrow> distinct (map fst kv) | _ \<Rightarrow> False)"

section \<open>Properties\<close>

lemmas dict_defs = dict_contains_def dict_getitem_def dict_setitem_def dict_pop_def

lemmas py_defs = py_contains_def py_getitem_def py_setitem_def py_pop_def

lemmas file_defs = isfile_def open_rb_def open_wb_def pickle_load_def pickle_dump_def

lemmas InMemory_defs =
  InMemory_create_def InMemory_replace_def InMemory_delete_def InMemory_get_def

lemmas LocalDisk_op_defs =
  LocalDisk_op_create_def LocalDisk_op_replace_def LocalDisk_op_delete_def LocalDisk_op_get_def

lemmas LocalDisk_defs =
  LocalDisk_safe_op_def LocalDisk_op_defs py_defs LocalDisk_create_def
  LocalDisk_replace_def LocalDisk_delete_def LocalDisk_get_def

subsection \<open>The disk backend on a file that holds a dictionary\<close>

text \<open>On the pickle of a dictionary the four static methods work on that dictionary.\<close>

lemma LocalDisk_op_create_Pickle:
  "LocalDisk_op_create k v (Pickle kv) =
     (if dict_contains k kv then
        (case dict_getitem kv k of
           Inl e \<Rightarrow> Inl e
         | Inr old \<Rightarrow> Inl (KeyConflict_init [PyStr k, old]))
      else Inr (Dict (dict_setitem k v kv), v))"
  by (simp add: LocalDisk_op_create_def pickle_load_def py_defs)

lemma LocalDisk_op_replace_Pickle:
  "LocalDisk_op_replace k v (Pickle kv) =
     (if \<not> dict_contains k kv then Inr (Dict (dict_setitem k v kv), PyNone)
      else
        (case dict_getitem kv k of
           Inl e \<Rightarrow> Inl e
         | Inr old_value \<Rightarrow> Inr (Dict (dict_setitem k v kv), old_value)))"
  by (simp add: LocalDisk_op_replace_def pickle_load_def py_defs split: sum.splits)

lemma LocalDisk_op_delete_Pickle:
  "LocalDisk_op_delete k (Pickle kv) =
     (case dict_pop k kv of
        Inl e \<Rightarrow> Inl e
      | Inr (v, kv') \<Rightarrow> Inr (Dict kv', v))"
  by (simp add: LocalDisk_op_delete_def pickle_load_def py_defs split: sum.splits prod.splits)

lemma LocalDisk_op_get_Pickle:
  "LocalDisk_op_get k (Pickle kv) =
     (case dict_getitem kv k of
        Inl e \<Rightarrow> Inl e
      | Inr v \<Rightarrow> Inr (Dict kv, v))"
  by (simp add: LocalDisk_op_get_def pickle_load_def py_defs)

lemmas LocalDisk_op_Pickle =
  LocalDisk_op_create_Pickle LocalDisk_op_replace_Pickle LocalDisk_op_delete_Pickle
  LocalDisk_op_get_Pickle

text \<open>
  On the pickle of a value that is no dictionary every one of them raises, and what a
  static method returns to be written is always a dictionary.
\<close>

lemma nondict_contains_cases:
  "nondict_contains k x = Inl TypeError \<or> (\<exists>b. nondict_contains k x = Inr b)"
  by (cases "(k, x)" rule: nondict_contains.cases) simp_all

lemma LocalDisk_op_Pickle_other:
  "LocalDisk_op_create k v (Pickle_other x) = Inl TypeError"
  "LocalDisk_op_replace k v (Pickle_other x) = Inl TypeError"
  "LocalDisk_op_delete k (Pickle_other x) = Inl (nondict_pop x)"
  "LocalDisk_op_get k (Pickle_other x) = Inl TypeError"
  using nondict_contains_cases [of k x]
  by (auto simp: LocalDisk_op_defs pickle_load_def py_defs)

lemma LocalDisk_op_undecodable:
  assumes "pickle_load f = Inl e"
  shows "LocalDisk_op_create k v f = Inl e"
    and "LocalDisk_op_replace k v f = Inl e"
    and "LocalDisk_op_delete k f = Inl e"
    and "LocalDisk_op_get k f = Inl e"
  using assms by (simp_all add: LocalDisk_op_defs)

lemma LocalDisk_op_returns_Dict:
  "LocalDisk_op_create k v f = Inr (obj, y) \<Longrightarrow> \<exists>kv kv'. f = Pickle kv \<and> obj = Dict kv'"
  "LocalDisk_op_replace k v f = Inr (obj, y) \<Longrightarrow> \<exists>kv kv'. f = Pickle kv \<and> obj = Dict kv'"
  "LocalDisk_op_delete k f = Inr (obj, y) \<Longrightarrow> \<exists>kv kv'. f = Pickle kv \<and> obj = Dict kv'"
  "LocalDisk_op_get k f = Inr (obj, y) \<Longrightarrow> \<exists>kv kv'. f = Pickle kv \<and> obj = Dict kv'"
proof -
  have load: "pickle_load Empty = Inl EOFError" "\<And>e. pickle_load (Garbage e) = Inl e"
    by (simp_all add: pickle_load_def)
  note fails = LocalDisk_op_Pickle_other LocalDisk_op_undecodable [OF load(1)]
    LocalDisk_op_undecodable [OF load(2)]
  show "LocalDisk_op_create k v f = Inr (obj, y) \<Longrightarrow> \<exists>kv kv'. f = Pickle kv \<and> obj = Dict kv'"
    by (cases f) (auto simp: LocalDisk_op_create_Pickle fails split: if_splits sum.splits)
  show "LocalDisk_op_replace k v f = Inr (obj, y) \<Longrightarrow> \<exists>kv kv'. f = Pickle kv \<and> obj = Dict kv'"
    by (cases f) (auto simp: LocalDisk_op_replace_Pickle fails split: if_splits sum.splits)
  show "LocalDisk_op_delete k f = Inr (obj, y) \<Longrightarrow> \<exists>kv kv'. f = Pickle kv \<and> obj = Dict kv'"
    by (cases f)
      (auto simp: LocalDisk_op_delete_Pickle fails split: if_splits sum.splits prod.splits)
  show "LocalDisk_op_get k f = Inr (obj, y) \<Longrightarrow> \<exists>kv kv'. f = Pickle kv \<and> obj = Dict kv'"
    by (cases f) (auto simp: LocalDisk_op_get_Pickle fails split: if_splits sum.splits)
qed

lemma LocalDisk_safe_op_Pickle:
  "kv_file fs = Some (Pickle kv) \<Longrightarrow>
   LocalDisk_safe_op kv_op fs =
     (case kv_op (Pickle kv) of
        Inl e \<Rightarrow> (Inl e, fs)
      | Inr (kv', v) \<Rightarrow> (Inr v, pickle_dump kv' (open_wb fs)))"
  by (simp add: LocalDisk_safe_op_def open_rb_def)

lemma kv_file_write [simp]:
  "kv_file (pickle_dump (Dict kv) (open_wb fs)) = Some (Pickle kv)"
  by (simp add: pickle_dump_def open_wb_def)

lemma io_log_write [simp]:
  "io_log (pickle_dump (Dict kv) (open_wb fs)) = Dump kv # Open_wb # io_log fs"
  by (simp add: pickle_dump_def open_wb_def)

lemma pickle_load_Pickle [simp]: "pickle_load (Pickle kv) = Inr (Dict kv)"
  by (simp add: pickle_load_def)

text \<open>
  A request that succeeds found the pickle of a dictionary in the file and has written
  the pickle of a dictionary.
\<close>

lemma LocalDisk_apply_success:
  assumes "fst (LocalDisk_apply r fs) = Inr x"
  shows "\<exists>kv kv'. kv_file fs = Some (Pickle kv) \<and>
    snd (LocalDisk_apply r fs) = pickle_dump (Dict kv') (open_wb fs)"
proof (cases r)
  case (Create k v)
  with assms show ?thesis
    by (auto simp: LocalDisk_create_def LocalDisk_safe_op_def open_rb_def
        split: option.splits sum.splits prod.splits dest!: LocalDisk_op_returns_Dict(1))
next
  case (Replace k v)
  with assms show ?thesis
    by (auto simp: LocalDisk_replace_def LocalDisk_safe_op_def open_rb_def
        split: option.splits sum.splits prod.splits dest!: LocalDisk_op_returns_Dict(2))
next
  case (Delete k)
  with assms show ?thesis
    by (auto simp: LocalDisk_delete_def LocalDisk_safe_op_def open_rb_def
        split: option.splits sum.splits prod.splits dest!: LocalDisk_op_returns_Dict(3))
next
  case (Get k)
  with assms show ?thesis
    by (auto simp: LocalDisk_get_def LocalDisk_safe_op_def open_rb_def
        split: option.splits sum.splits prod.splits dest!: LocalDisk_op_returns_Dict(4))
qed

text \<open>
  But for \<open>create\<close> of a key that is present, the disk backend on a file that holds
  the dictionary \<open>kv\<close> raises and returns what the in-memory backend does on \<open>kv\<close>,
  and writes the dictionary that the in-memory backend ends with.
\<close>

lemma LocalDisk_refines_InMemory_but_conflict:
  assumes "kv_file fs = Some (Pickle kv)"
    and "\<not> (\<exists>k v. r = Create k v \<and> dict_contains k kv)"
  shows "LocalDisk_apply r fs =
    (case InMemory_apply r kv of
       (Inl e, kv') \<Rightarrow> (Inl e, fs)
     | (Inr v, kv') \<Rightarrow> (Inr v, pickle_dump (Dict kv') (open_wb fs)))"
  using assms
  by (cases r)
    (auto simp: LocalDisk_create_def LocalDisk_replace_def LocalDisk_delete_def LocalDisk_get_def
      LocalDisk_safe_op_Pickle LocalDisk_op_Pickle InMemory_defs dict_defs
      split: option.splits sum.splits prod.splits)

subsection \<open>Uniqueness of keys is kept by every request\<close>

lemma at_most_one_entry:
  "distinct (map fst kv) \<Longrightarrow> length (filter (\<lambda>p. fst p = k) kv) \<le> 1"
  by (induction kv) (auto simp: filter_empty_conv image_iff)

lemma InMemory_apply_distinct:
  "distinct (map fst kv) \<Longrightarrow> distinct (map fst (snd (InMemory_apply r kv)))"
  by (cases r) (auto simp: InMemory_defs dict_defs distinct_update distinct_delete
      split: option.splits)

lemma InMemory_run_distinct:
  "distinct (map fst kv) \<Longrightarrow> distinct (map fst (InMemory_run rs kv))"
  by (induction rs arbitrary: kv) (simp_all add: InMemory_apply_distinct)

lemma holds_unique_storeD:
  "holds_unique_store fs \<Longrightarrow> \<exists>kv. kv_file fs = Some (Pickle kv) \<and> distinct (map fst kv)"
  unfolding holds_unique_store_def
  by (cases "kv_file fs") (simp_all split: file_data.splits)

lemma LocalDisk_apply_unique:
  assumes "holds_unique_store fs"
  shows "holds_unique_store (snd (LocalDisk_apply r fs))"
proof -
  from assms obtain kv where f: "kv_file fs = Some (Pickle kv)" and d: "distinct (map fst kv)"
    using holds_unique_storeD by blast
  show ?thesis
  proof (cases r)
    case (Create k v)
    then show ?thesis using f d
      by (simp add: LocalDisk_create_def LocalDisk_safe_op_Pickle LocalDisk_op_create_Pickle
          dict_defs holds_unique_store_def distinct_update
          split: option.splits)
  next
    case (Replace k v)
    then show ?thesis using f d
      by (simp add: LocalDisk_replace_def LocalDisk_safe_op_Pickle LocalDisk_op_replace_Pickle
          dict_defs holds_unique_store_def distinct_update
          split: option.splits)
  next
    case (Delete k)
    then show ?thesis using f d
      by (simp add: LocalDisk_delete_def LocalDisk_safe_op_Pickle LocalDisk_op_delete_Pickle
          dict_defs holds_unique_store_def distinct_delete
          split: option.splits)
  next
    case (Get k)
    then show ?thesis using f d
      by (simp add: LocalDisk_get_def LocalDisk_safe_op_Pickle LocalDisk_op_get_Pickle
          dict_defs holds_unique_store_def
          split: option.splits)
  qed
qed

lemma LocalDisk_run_unique:
  "holds_unique_store fs \<Longrightarrow> holds_unique_store (LocalDisk_run rs fs)"
  by (induction rs arbitrary: fs) (simp_all add: LocalDisk_apply_unique)

subsection \<open>\<open>create\<close> on the two backends\<close>

lemma InMemory_create_absent:
  "\<not> dict_contains k kv \<Longrightarrow> InMemory_create k v kv = (Inr PyNone, dict_setitem k v kv)"
  by (simp add: InMemory_create_def)

lemma InMemory_create_conflict:
  "dict_getitem kv k = Inr old \<Longrightarrow>
   InMemory_create k v kv = (Inl (KeyConflict (PyStr k) old v), kv)"
  by (simp add: InMemory_create_def dict_defs split: option.splits)

lemma LocalDisk_create_absent:
  "kv_file fs = Some (Pickle kv) \<Longrightarrow> \<not> dict_contains k kv \<Longrightarrow>
   LocalDisk_create k v fs = (Inr PyNone, pickle_dump (Dict (dict_setitem k v kv)) (open_wb fs))"
  by (simp add: LocalDisk_create_def LocalDisk_safe_op_Pickle LocalDisk_op_create_Pickle
     )

lemma LocalDisk_create_conflict:
  "kv_file fs = Some (Pickle kv) \<Longrightarrow> dict_getitem kv k = Inr old \<Longrightarrow>
   LocalDisk_create k v fs = (Inl TypeError, fs)"
  by (simp add: LocalDisk_create_def LocalDisk_safe_op_Pickle LocalDisk_op_create_Pickle
      dict_defs split: option.splits)

subsection \<open>The write step in any environment\<close>

lemma LocalDisk_safe_op_io_All_on_disk:
  "LocalDisk_safe_op_io All_on_disk kv_op fs = LocalDisk_safe_op kv_op fs"
  by (simp add: LocalDisk_safe_op_io_def LocalDisk_safe_op_def write_path_at_def
      split: sum.splits prod.splits)

lemma LocalDisk_apply_io_All_on_disk:
  "LocalDisk_apply_io All_on_disk r fs = LocalDisk_apply r fs"
  by (cases r)
    (simp_all add: LocalDisk_create_io_def LocalDisk_create_def LocalDisk_replace_def
      LocalDisk_delete_def LocalDisk_get_def LocalDisk_safe_op_io_All_on_disk)



text \<open>
  A request that succeeds when the write step goes through raises \<open>OSError\<close> when it
  does not, and leaves the file as far as the write step got.
\<close>

lemma LocalDisk_safe_op_io_write_fails:
  assumes "fst (LocalDisk_safe_op kv_op fs) = Inr x" and "w \<noteq> All_on_disk"
  shows "fst (LocalDisk_safe_op_io w kv_op fs) = Inl OSError"
    and "kv_file (snd (LocalDisk_safe_op_io w kv_op fs)) =
      (case w of Not_opened \<Rightarrow> kv_file fs | Opened_empty \<Rightarrow> Some Empty
       | Part_on_disk e \<Rightarrow> Some (Garbage e) | All_on_disk \<Rightarrow> kv_file fs)"
    and "w = Not_opened \<Longrightarrow> snd (LocalDisk_safe_op_io w kv_op fs) = fs"
  using assms
  by (auto simp: LocalDisk_safe_op_io_def LocalDisk_safe_op_def write_path_at_def open_wb_def
      split: sum.splits prod.splits write_progress.splits)

lemma LocalDisk_create_io_write_fails:
  assumes "fst (LocalDisk_create k v fs) = Inr x" and "w \<noteq> All_on_disk"
  shows "LocalDisk_create_io w k v fs = LocalDisk_safe_op_io w (LocalDisk_op_create k v) fs"
    and "\<exists>y. fst (LocalDisk_safe_op (LocalDisk_op_create k v) fs) = Inr y"
proof -
  from assms(1) show ok: "\<exists>y. fst (LocalDisk_safe_op (LocalDisk_op_create k v) fs) = Inr y"
    by (auto simp: LocalDisk_create_def split: sum.splits prod.splits)
  then obtain y where "fst (LocalDisk_safe_op (LocalDisk_op_create k v) fs) = Inr y" ..
  from LocalDisk_safe_op_io_write_fails(1) [OF this assms(2)]
  show "LocalDisk_create_io w k v fs = LocalDisk_safe_op_io w (LocalDisk_op_create k v) fs"
    by (cases "LocalDisk_safe_op_io w (LocalDisk_op_create k v) fs")
      (simp add: LocalDisk_create_io_def)
qed

lemma LocalDisk_apply_io_write_fails:
  assumes "fst (LocalDisk_apply r fs) = Inr x" and "w \<noteq> All_on_disk"
  shows "fst (LocalDisk_apply_io w r fs) = Inl OSError"
    and "kv_file (snd (LocalDisk_apply_io w r fs)) =
      (case w of Not_opened \<Rightarrow> kv_file fs | Opened_empty \<Rightarrow> Some Empty
       | Part_on_disk e \<Rightarrow> Some (Garbage e) | All_on_disk \<Rightarrow> kv_file fs)"
    and "w = Not_opened \<Longrightarrow> snd (LocalDisk_apply_io w r fs) = fs"
proof -
  have "\<exists>kv_op y. fst (LocalDisk_safe_op kv_op fs) = Inr y \<and>
      LocalDisk_apply_io w r fs = LocalDisk_safe_op_io w kv_op fs"
  proof (cases r)
    case (Create k v)
    with assms LocalDisk_create_io_write_fails [of k v fs x w] show ?thesis
      by auto
  next
    case (Replace k v)
    with assms show ?thesis by (auto simp: LocalDisk_replace_def)
  next
    case (Delete k)
    with assms show ?thesis by (auto simp: LocalDisk_delete_def)
  next
    case (Get k)
    with assms show ?thesis by (auto simp: LocalDisk_get_def)
  qed
  then obtain kv_op y where ok: "fst (LocalDisk_safe_op kv_op fs) = Inr y"
    and eq: "LocalDisk_apply_io w r fs = LocalDisk_safe_op_io w kv_op fs"
    by blast
  note f = LocalDisk_safe_op_io_write_fails [OF ok assms(2)]
  show "fst (LocalDisk_apply_io w r fs) = Inl OSError"
    by (simp add: eq f(1))
  show "kv_file (snd (LocalDisk_apply_io w r fs)) =
      (case w of Not_opened \<Rightarrow> kv_file fs | Opened_empty \<Rightarrow> Some Empty
       | Part_on_disk e \<Rightarrow> Some (Garbage e) | All_on_disk \<Rightarrow> kv_file fs)"
    by (simp add: eq f(2))
  show "w = Not_opened \<Longrightarrow> snd (LocalDisk_apply_io w r fs) = fs"
    using eq f(3) by simp
qed

subsection \<open>The claims\<close>

text \<open>
  C1: on both backends \<open>create\<close> of a key that maps to a value raises \<open>KeyConflict\<close>
  with the key, the value it maps to and the value that was given, and changes nothing;
  \<open>create\<close> of an absent key adds the entry. The in-memory backend does so
  (\<open>InMemory_create_conflict\<close>, \<open>InMemory_create_absent\<close>), and the disk backend
  adds the entry of an absent key (\<open>LocalDisk_create_absent\<close>). But on a key that the
  file already maps to a value the disk backend does not raise \<open>KeyConflict\<close>:
  \<open>_create\<close> calls \<open>KeyConflict(key, kv_store[key])\<close> with two arguments where the
  constructor takes three, so the call raises \<open>TypeError\<close>. The file is left as it was.
\<close>

theorem LocalDisk_create_conflict_raises_TypeError:
  "LocalDisk_create ''k'' (PyStr ''new'')
     \<lparr>kv_file = Some (Pickle [(''k'', PyStr ''old'')]), io_log = []\<rparr>
   = (Inl TypeError, \<lparr>kv_file = Some (Pickle [(''k'', PyStr ''old'')]), io_log = []\<rparr>)"
  by (simp add: LocalDisk_defs dict_defs file_defs)

text \<open>
  C2: the disk backend on a file that holds a dictionary fails or returns as the
  in-memory backend does on the same dictionary. The two do not fail alike on
  \<open>create\<close> of a key that is present: the first raises \<open>TypeError\<close>, the second
  \<open>KeyConflict\<close> with the key, the old and the new value. On every other request the
  two agree (\<open>LocalDisk_refines_InMemory_but_conflict\<close>).
\<close>

theorem LocalDisk_InMemory_differ_on_conflict:
  "fst (LocalDisk_apply (Create ''k'' (PyStr ''new''))
          \<lparr>kv_file = Some (Pickle [(''k'', PyStr ''old'')]), io_log = []\<rparr>)
     = Inl TypeError \<and>
   fst (InMemory_apply (Create ''k'' (PyStr ''new'')) [(''k'', PyStr ''old'')])
     = Inl (KeyConflict (PyStr ''k'') (PyStr ''old'') (PyStr ''new''))"
  by (simp add: LocalDisk_defs InMemory_defs dict_defs file_defs)




text \<open>
  C4 as stated fails: what \<open>replace\<close> returns for a key that was absent is \<open>None\<close>,
  and \<open>None\<close> is also what it returns for a key whose stored value is null. The
  return value does not tell the two apart, on either backend.
\<close>

theorem replace_None_is_also_stored_null:
  "fst (InMemory_replace ''k'' (PyStr ''v'') []) = Inr PyNone \<and>
   fst (InMemory_replace ''k'' (PyStr ''v'') [(''k'', PyNone)]) = Inr PyNone \<and>
   fst (LocalDisk_replace ''k'' (PyStr ''v'') \<lparr>kv_file = Some (Pickle []), io_log = []\<rparr>)
     = Inr PyNone \<and>
   fst (LocalDisk_replace ''k'' (PyStr ''v'')
          \<lparr>kv_file = Some (Pickle [(''k'', PyNone)]), io_log = []\<rparr>) = Inr PyNone"
  by (simp add: LocalDisk_defs InMemory_defs dict_defs file_defs)

text \<open>
  C4, amended. On a key that is absent \<open>replace\<close> succeeds, stores the value and
  returns \<open>None\<close>; a second \<open>replace\<close> returns the value stored by the first (so
  \<open>None\<close> again when that value is null), and a following \<open>get\<close> returns the value
  stored by the second. \<open>replace\<close> never raises on the in-memory backend, and on the
  disk backend never when the file holds a dictionary, whether the key is there or not.
\<close>

theorem replace_returns_previous_or_None:
  "(\<not> dict_contains k kv \<longrightarrow>
      (let (r1, kv1) = InMemory_replace k v1 kv;
           (r2, kv2) = InMemory_replace k v2 kv1;
           (r3, kv3) = InMemory_get k kv2
       in r1 = Inr PyNone \<and> dict_getitem kv1 k = Inr v1 \<and> r2 = Inr v1 \<and> r3 = Inr v2)) \<and>
   (\<exists>x. fst (InMemory_replace k v kv) = Inr x) \<and>
   (kv_file fs = Some (Pickle kv) \<and> \<not> dict_contains k kv \<longrightarrow>
      (let (r1, fs1) = LocalDisk_replace k v1 fs;
           (r2, fs2) = LocalDisk_replace k v2 fs1;
           (r3, fs3) = LocalDisk_get k fs2
       in r1 = Inr PyNone \<and> read_store fs1 = Inr (Dict (dict_setitem k v1 kv)) \<and>
          r2 = Inr v1 \<and> r3 = Inr v2)) \<and>
   (kv_file fs = Some (Pickle kv) \<longrightarrow> (\<exists>x. fst (LocalDisk_replace k v fs) = Inr x))"
proof (intro conjI impI)
  assume "\<not> dict_contains k kv"
  then show "let (r1, kv1) = InMemory_replace k v1 kv;
           (r2, kv2) = InMemory_replace k v2 kv1;
           (r3, kv3) = InMemory_get k kv2
       in r1 = Inr PyNone \<and> dict_getitem kv1 k = Inr v1 \<and> r2 = Inr v1 \<and> r3 = Inr v2"
    by (simp add: InMemory_defs dict_defs update_conv')
next
  show "\<exists>x. fst (InMemory_replace k v kv) = Inr x"
    by (simp add: InMemory_defs dict_defs split: option.splits)
next
  assume "kv_file fs = Some (Pickle kv) \<and> \<not> dict_contains k kv"
  then show "let (r1, fs1) = LocalDisk_replace k v1 fs;
           (r2, fs2) = LocalDisk_replace k v2 fs1;
           (r3, fs3) = LocalDisk_get k fs2
       in r1 = Inr PyNone \<and> read_store fs1 = Inr (Dict (dict_setitem k v1 kv)) \<and>
          r2 = Inr v1 \<and> r3 = Inr v2"
    by (simp add: LocalDisk_replace_def LocalDisk_get_def LocalDisk_safe_op_Pickle
        LocalDisk_op_Pickle read_store_def open_rb_def dict_defs update_conv')
next
  assume "kv_file fs = Some (Pickle kv)"
  then show "\<exists>x. fst (LocalDisk_replace k v fs) = Inr x"
    by (simp add: LocalDisk_replace_def LocalDisk_safe_op_Pickle LocalDisk_op_replace_Pickle
        dict_defs split: option.splits)
qed

theorem replace_returns_previous_or_None_witness:
  "\<not> dict_contains ''k'' [(''j'', PyNum 1)] \<and>
   kv_file \<lparr>kv_file = Some (Pickle [(''j'', PyNum 1)]), io_log = []\<rparr>
     = Some (Pickle [(''j'', PyNum 1)]) \<and>
   (let (r1, kv1) = InMemory_replace ''k'' PyNone [(''j'', PyNum 1)];
        (r2, kv2) = InMemory_replace ''k'' (PyStr ''b'') kv1;
        (r3, kv3) = InMemory_get ''k'' kv2
    in r1 = Inr PyNone \<and> dict_getitem kv1 ''k'' = Inr PyNone \<and> r2 = Inr PyNone \<and>
       r3 = Inr (PyStr ''b'')) \<and>
   (let (r1, fs1) = LocalDisk_replace ''k'' PyNone
                      \<lparr>kv_file = Some (Pickle [(''j'', PyNum 1)]), io_log = []\<rparr>;
        (r2, fs2) = LocalDisk_replace ''k'' (PyStr ''b'') fs1;
        (r3, fs3) = LocalDisk_get ''k'' fs2
    in r1 = Inr PyNone \<and> read_store fs1 = Inr (Dict [(''j'', PyNum 1), (''k'', PyNone)]) \<and>
       r2 = Inr PyNone \<and> r3 = Inr (PyStr ''b''))"
  using replace_returns_previous_or_None
    [of "''k''" "[(''j'', PyNum 1)]" PyNone "PyStr ''b''" PyNone
        "\<lparr>kv_file = Some (Pickle [(''j'', PyNum 1)]), io_log = []\<rparr>"]
  by (simp add: dict_defs)

text \<open>
  C5. On both backends \<open>delete\<close> of a key \<open>k\<close> that maps to \<open>v\<close> returns \<open>v\<close> and
  leaves the dictionary without the entry of \<open>k\<close> and otherwise as it was, and a
  following \<open>get\<close> of \<open>k\<close> raises \<open>KeyError\<close>, the error kind that the specification
  calls KeyNotFound. \<open>delete\<close> and \<open>get\<close> of a key \<open>k'\<close> that is absent raise
  \<open>KeyError\<close> and change nothing.
\<close>

theorem delete_then_get:
  "(dict_getitem kv k = Inr v \<longrightarrow>
      (let (r1, kv1) = InMemory_delete k kv;
           (r2, kv2) = InMemory_get k kv1
       in r1 = Inr v \<and> kv1 = filter (\<lambda>p. fst p \<noteq> k) kv \<and> \<not> dict_contains k kv1 \<and>
          r2 = Inl (KeyError k))) \<and>
   (\<not> dict_contains k' kv \<longrightarrow>
      InMemory_delete k' kv = (Inl (KeyError k'), kv) \<and>
      InMemory_get k' kv = (Inl (KeyError k'), kv)) \<and>
   (kv_file fs = Some (Pickle kv) \<and> dict_getitem kv k = Inr v \<longrightarrow>
      (let (r1, fs1) = LocalDisk_delete k fs;
           (r2, fs2) = LocalDisk_get k fs1
       in r1 = Inr v \<and> read_store fs1 = Inr (Dict (filter (\<lambda>p. fst p \<noteq> k) kv)) \<and>
          r2 = Inl (KeyError k))) \<and>
   (kv_file fs = Some (Pickle kv) \<and> \<not> dict_contains k' kv \<longrightarrow>
      LocalDisk_delete k' fs = (Inl (KeyError k'), fs) \<and>
      LocalDisk_get k' fs = (Inl (KeyError k'), fs))"
proof -
  have del: "AList.delete k kv = filter (\<lambda>p. fst p \<noteq> k) kv"
    by (induction kv) auto
  show ?thesis
  proof (intro conjI impI)
    assume "dict_getitem kv k = Inr v"
    then show "let (r1, kv1) = InMemory_delete k kv;
           (r2, kv2) = InMemory_get k kv1
       in r1 = Inr v \<and> kv1 = filter (\<lambda>p. fst p \<noteq> k) kv \<and> \<not> dict_contains k kv1 \<and>
          r2 = Inl (KeyError k)"
      by (simp add: InMemory_defs dict_defs del [symmetric] delete_conv' split: option.splits)
  next
    assume "\<not> dict_contains k' kv"
    then show "InMemory_delete k' kv = (Inl (KeyError k'), kv)"
      by (simp add: InMemory_defs dict_defs)
  next
    assume "\<not> dict_contains k' kv"
    then show "InMemory_get k' kv = (Inl (KeyError k'), kv)"
      by (simp add: InMemory_defs dict_defs)
  next
    assume "kv_file fs = Some (Pickle kv) \<and> dict_getitem kv k = Inr v"
    then show "let (r1, fs1) = LocalDisk_delete k fs;
           (r2, fs2) = LocalDisk_get k fs1
       in r1 = Inr v \<and> read_store fs1 = Inr (Dict (filter (\<lambda>p. fst p \<noteq> k) kv)) \<and>
          r2 = Inl (KeyError k)"
      by (simp add: LocalDisk_delete_def LocalDisk_get_def LocalDisk_safe_op_Pickle
          LocalDisk_op_Pickle read_store_def
          open_rb_def dict_defs del [symmetric] delete_conv' split: option.splits)
  next
    assume "kv_file fs = Some (Pickle kv) \<and> \<not> dict_contains k' kv"
    then show "LocalDisk_delete k' fs = (Inl (KeyError k'), fs)"
      by (simp add: LocalDisk_delete_def LocalDisk_safe_op_Pickle LocalDisk_op_delete_Pickle
          dict_defs)
  next
    assume "kv_file fs = Some (Pickle kv) \<and> \<not> dict_contains k' kv"
    then show "LocalDisk_get k' fs = (Inl (KeyError k'), fs)"
      by (simp add: LocalDisk_get_def LocalDisk_safe_op_Pickle LocalDisk_op_get_Pickle
          dict_defs)
  qed
qed

theorem delete_then_get_witness:
  "dict_getitem [(''k'', PyBool True), (''i'', PyNum 7)] ''k'' = Inr (PyBool True) \<and>
   \<not> dict_contains ''j'' [(''k'', PyBool True), (''i'', PyNum 7)] \<and>
   InMemory_delete ''k'' [(''k'', PyBool True), (''i'', PyNum 7)]
     = (Inr (PyBool True), [(''i'', PyNum 7)]) \<and>
   InMemory_get ''k'' [(''i'', PyNum 7)] = (Inl (KeyError ''k''), [(''i'', PyNum 7)]) \<and>
   InMemory_delete ''j'' [(''k'', PyBool True), (''i'', PyNum 7)]
     = (Inl (KeyError ''j''), [(''k'', PyBool True), (''i'', PyNum 7)]) \<and>
   fst (LocalDisk_delete ''k''
          \<lparr>kv_file = Some (Pickle [(''k'', PyBool True), (''i'', PyNum 7)]), io_log = []\<rparr>)
     = Inr (PyBool True) \<and>
   LocalDisk_get ''j''
       \<lparr>kv_file = Some (Pickle [(''k'', PyBool True), (''i'', PyNum 7)]), io_log = []\<rparr>
     = (Inl (KeyError ''j''),
        \<lparr>kv_file = Some (Pickle [(''k'', PyBool True), (''i'', PyNum 7)]), io_log = []\<rparr>)"
  using delete_then_get
    [of "[(''k'', PyBool True), (''i'', PyNum 7)]" "''k''" "PyBool True" "''j''"
        "\<lparr>kv_file = Some (Pickle [(''k'', PyBool True), (''i'', PyNum 7)]), io_log = []\<rparr>"]
  by (simp add: dict_defs InMemory_defs split: prod.splits)

text \<open>
  C6. When \<open>create\<close> of \<open>k\<close> and \<open>v\<close> succeeds on a disk backend, a new instance on
  the file system it leaves behind changes nothing in it, and \<open>get\<close> of \<open>k\<close> on the
  new instance returns \<open>v\<close>. \<open>__init__\<close> leaves a file that exists as it is, and
  where there is none it writes a file that holds the empty dictionary.
\<close>

theorem disk_persistence_round_trip:
  "(fst (LocalDisk_create k v (LocalDisk_init fs)) = Inr r \<longrightarrow>
      (let fs1 = snd (LocalDisk_create k v (LocalDisk_init fs))
       in LocalDisk_init fs1 = fs1 \<and> fst (LocalDisk_get k (LocalDisk_init fs1)) = Inr v)) \<and>
   (isfile fs' \<longrightarrow> LocalDisk_init fs' = fs') \<and>
   (\<not> isfile fs \<longrightarrow> read_store (LocalDisk_init fs) = Inr (Dict []))"
proof (intro conjI impI)
  assume ok: "fst (LocalDisk_create k v (LocalDisk_init fs)) = Inr r"
  define fs0 where "fs0 = LocalDisk_init fs"
  from ok have ok0: "fst (LocalDisk_create k v fs0) = Inr r"
    by (simp add: fs0_def)
  then obtain kv where f: "kv_file fs0 = Some (Pickle kv)"
    by (cases "kv_file fs0")
      (auto simp: LocalDisk_create_def LocalDisk_safe_op_def open_rb_def
        split: sum.splits prod.splits dest: LocalDisk_op_returns_Dict(1))
  from ok0 f have absent: "map_of kv k = None"
    by (cases "map_of kv k")
      (simp_all add: LocalDisk_create_def LocalDisk_safe_op_Pickle LocalDisk_op_create_Pickle
        dict_defs)
  have c: "LocalDisk_create k v fs0
      = (Inr PyNone, pickle_dump (Dict (AList.update k v kv)) (open_wb fs0))"
    using f absent
    by (simp add: LocalDisk_create_def LocalDisk_safe_op_Pickle LocalDisk_op_create_Pickle
        dict_defs)
  have "LocalDisk_init (pickle_dump (Dict (AList.update k v kv)) (open_wb fs0))
      = pickle_dump (Dict (AList.update k v kv)) (open_wb fs0)"
    by (simp add: LocalDisk_init_def isfile_def)
  moreover have "fst (LocalDisk_get k (pickle_dump (Dict (AList.update k v kv)) (open_wb fs0)))
      = Inr v"
    by (simp add: LocalDisk_get_def LocalDisk_safe_op_Pickle [where kv = "AList.update k v kv"]
        LocalDisk_op_get_Pickle dict_defs update_conv')
  ultimately show "let fs1 = snd (LocalDisk_create k v (LocalDisk_init fs))
       in LocalDisk_init fs1 = fs1 \<and> fst (LocalDisk_get k (LocalDisk_init fs1)) = Inr v"
    using c by (simp add: fs0_def [symmetric])
next
  assume "isfile fs'"
  then show "LocalDisk_init fs' = fs'"
    by (simp add: LocalDisk_init_def)
next
  assume "\<not> isfile fs"
  then show "read_store (LocalDisk_init fs) = Inr (Dict [])"
    by (simp add: LocalDisk_init_def read_store_def open_rb_def pickle_load_def)
qed

theorem disk_persistence_round_trip_witness:
  "fst (LocalDisk_create ''k'' (PyNum 5) (LocalDisk_init \<lparr>kv_file = None, io_log = []\<rparr>))
     = Inr PyNone \<and>
   isfile \<lparr>kv_file = Some (Pickle [(''j'', PyNone)]), io_log = []\<rparr> \<and>
   \<not> isfile \<lparr>kv_file = None, io_log = []\<rparr> \<and>
   fst (LocalDisk_get ''k'' (LocalDisk_init
          (snd (LocalDisk_create ''k'' (PyNum 5) (LocalDisk_init \<lparr>kv_file = None, io_log = []\<rparr>)))))
     = Inr (PyNum 5) \<and>
   LocalDisk_init \<lparr>kv_file = Some (Pickle [(''j'', PyNone)]), io_log = []\<rparr>
     = \<lparr>kv_file = Some (Pickle [(''j'', PyNone)]), io_log = []\<rparr> \<and>
   read_store (LocalDisk_init \<lparr>kv_file = None, io_log = []\<rparr>) = Inr (Dict [])"
proof -
  have ok: "fst (LocalDisk_create ''k'' (PyNum 5) (LocalDisk_init \<lparr>kv_file = None, io_log = []\<rparr>))
     = Inr PyNone"
    by (simp add: LocalDisk_defs LocalDisk_init_def dict_defs file_defs)
  have h1: "isfile \<lparr>kv_file = Some (Pickle [(''j'', PyNone)]), io_log = []\<rparr>"
    by (simp add: isfile_def)
  have h2: "\<not> isfile \<lparr>kv_file = None, io_log = []\<rparr>"
    by (simp add: isfile_def)
  show ?thesis
    using ok h1 h2 disk_persistence_round_trip
      [of "''k''" "PyNum 5" "\<lparr>kv_file = None, io_log = []\<rparr>" PyNone
          "\<lparr>kv_file = Some (Pickle [(''j'', PyNone)]), io_log = []\<rparr>"]
    unfolding Let_def by blast
qed

text \<open>
  C7 as stated fails: the write path has no temporary file and no rename, it opens the
  backing file itself with mode \<open>'wb'\<close> and dumps into it. A \<open>create\<close> on the empty
  dictionary whose write path is stopped after the open, with nothing of the pickle in
  the file yet, leaves a file from which the next read gets neither the old dictionary
  nor the new one, but \<open>EOFError\<close>.
\<close>

theorem interrupted_write_leaves_empty_file:
  "read_store \<lparr>kv_file = Some (Pickle []), io_log = []\<rparr> = Inr (Dict []) \<and>
   read_store (snd (LocalDisk_apply_io Opened_empty (Create ''k'' (PyStr ''v''))
                 \<lparr>kv_file = Some (Pickle []), io_log = []\<rparr>)) = Inl EOFError \<and>
   read_store (snd (LocalDisk_apply (Create ''k'' (PyStr ''v''))
                 \<lparr>kv_file = Some (Pickle []), io_log = []\<rparr>))
     = Inr (Dict [(''k'', PyStr ''v'')])"
  by (simp add: LocalDisk_create_io_def LocalDisk_safe_op_io_def LocalDisk_create_def
      LocalDisk_safe_op_def LocalDisk_op_create_Pickle write_path_at_def read_store_def
      dict_defs file_defs)

text \<open>
  C7, amended. For a request that succeeds on a file holding the dictionary \<open>old\<close>,
  what a read finds after the write path was stopped: the dictionary \<open>old\<close> if the
  open for writing has not happened; \<open>EOFError\<close> on an empty file from the truncating
  open on, as long as nothing of the pickle has reached the file (the pickle that
  \<open>pickle.dump\<close> has written may still be in the buffer); the exception that
  \<open>pickle.load\<close> raises on a part of a pickle while only a part is in the file; and
  the new dictionary, in the file system that the request ends with, only once the
  whole pickle is in the file.
\<close>

theorem write_path_overwrites_in_place:
  assumes "kv_file fs = Some (Pickle old)" and "LocalDisk_apply r fs = (Inr x, fs')"
  shows "read_store (snd (LocalDisk_apply_io Not_opened r fs)) = Inr (Dict old) \<and>
    read_store (snd (LocalDisk_apply_io Opened_empty r fs)) = Inl EOFError \<and>
    read_store (snd (LocalDisk_apply_io (Part_on_disk e) r fs)) = Inl e \<and>
    snd (LocalDisk_apply_io All_on_disk r fs) = fs' \<and>
    (\<exists>new. read_store fs' = Inr (Dict new))"
proof -
  from assms(2) have ok: "fst (LocalDisk_apply r fs) = Inr x"
    by simp
  have "read_store (snd (LocalDisk_apply_io Not_opened r fs)) = Inr (Dict old)"
    using LocalDisk_apply_io_write_fails(3) [OF ok, of Not_opened] assms(1)
    by (simp add: read_store_def open_rb_def)
  moreover have "read_store (snd (LocalDisk_apply_io Opened_empty r fs)) = Inl EOFError"
    using LocalDisk_apply_io_write_fails(2) [OF ok, of Opened_empty]
    by (simp add: read_store_def open_rb_def pickle_load_def)
  moreover have "read_store (snd (LocalDisk_apply_io (Part_on_disk e) r fs)) = Inl e"
    using LocalDisk_apply_io_write_fails(2) [OF ok, of "Part_on_disk e"]
    by (simp add: read_store_def open_rb_def pickle_load_def)
  moreover have "snd (LocalDisk_apply_io All_on_disk r fs) = fs'"
    using assms(2) by (simp add: LocalDisk_apply_io_All_on_disk)
  moreover have "\<exists>new. read_store fs' = Inr (Dict new)"
    using LocalDisk_apply_success [OF ok] assms(2)
    by (auto simp: read_store_def open_rb_def)
  ultimately show ?thesis by blast
qed

theorem write_path_overwrites_in_place_witness:
  "kv_file \<lparr>kv_file = Some (Pickle [(''k'', PyNum 1)]), io_log = []\<rparr>
     = Some (Pickle [(''k'', PyNum 1)]) \<and>
   LocalDisk_apply (Replace ''k'' (PyNum 2)) \<lparr>kv_file = Some (Pickle [(''k'', PyNum 1)]), io_log = []\<rparr>
     = (Inr (PyNum 1),
        \<lparr>kv_file = Some (Pickle [(''k'', PyNum 2)]), io_log = [Dump [(''k'', PyNum 2)], Open_wb]\<rparr>) \<and>
   read_store (snd (LocalDisk_apply_io Not_opened (Replace ''k'' (PyNum 2))
      \<lparr>kv_file = Some (Pickle [(''k'', PyNum 1)]), io_log = []\<rparr>)) = Inr (Dict [(''k'', PyNum 1)]) \<and>
   read_store (snd (LocalDisk_apply_io Opened_empty (Replace ''k'' (PyNum 2))
      \<lparr>kv_file = Some (Pickle [(''k'', PyNum 1)]), io_log = []\<rparr>)) = Inl EOFError \<and>
   read_store (snd (LocalDisk_apply_io (Part_on_disk UnpicklingError) (Replace ''k'' (PyNum 2))
      \<lparr>kv_file = Some (Pickle [(''k'', PyNum 1)]), io_log = []\<rparr>)) = Inl UnpicklingError \<and>
   snd (LocalDisk_apply_io All_on_disk (Replace ''k'' (PyNum 2))
      \<lparr>kv_file = Some (Pickle [(''k'', PyNum 1)]), io_log = []\<rparr>)
     = \<lparr>kv_file = Some (Pickle [(''k'', PyNum 2)]), io_log = [Dump [(''k'', PyNum 2)], Open_wb]\<rparr>"
proof -
  have h1: "kv_file \<lparr>kv_file = Some (Pickle [(''k'', PyNum 1)]), io_log = []\<rparr>
     = Some (Pickle [(''k'', PyNum 1)])"
    by simp
  have h2: "LocalDisk_apply (Replace ''k'' (PyNum 2))
       \<lparr>kv_file = Some (Pickle [(''k'', PyNum 1)]), io_log = []\<rparr>
     = (Inr (PyNum 1),
        \<lparr>kv_file = Some (Pickle [(''k'', PyNum 2)]), io_log = [Dump [(''k'', PyNum 2)], Open_wb]\<rparr>)"
    by (simp add: LocalDisk_replace_def LocalDisk_safe_op_Pickle LocalDisk_op_replace_Pickle
        dict_defs pickle_dump_def open_wb_def)
  show ?thesis
    using h1 h2 write_path_overwrites_in_place [OF h1 h2, of UnpicklingError] by blast
qed




text \<open>
  C9. After any run of requests from the empty store, every key has at most one entry:
  in the dictionary of the in-memory backend, and in the dictionary that the file of
  the disk backend holds (the file being the one a first \<open>__init__\<close> creates).
\<close>

theorem keys_unique_after_any_run:
  "length (filter (\<lambda>p. fst p = k) (InMemory_run rs InMemory_init)) \<le> 1 \<and>
   (\<exists>kv. kv_file (LocalDisk_run rs (LocalDisk_init \<lparr>kv_file = None, io_log = []\<rparr>)) = Some (Pickle kv)
      \<and> length (filter (\<lambda>p. fst p = k) kv) \<le> 1)"
proof
  have "distinct (map fst (InMemory_run rs InMemory_init))"
    by (rule InMemory_run_distinct) (simp add: InMemory_init_def)
  then show "length (filter (\<lambda>p. fst p = k) (InMemory_run rs InMemory_init)) \<le> 1"
    by (rule at_most_one_entry)
next
  let ?fs = "LocalDisk_run rs (LocalDisk_init \<lparr>kv_file = None, io_log = []\<rparr>)"
  have "holds_unique_store (LocalDisk_init \<lparr>kv_file = None, io_log = []\<rparr>)"
    by (simp add: holds_unique_store_def LocalDisk_init_def isfile_def)
  then have "holds_unique_store ?fs"
    by (rule LocalDisk_run_unique)
  then obtain kv where kv: "kv_file ?fs = Some (Pickle kv)" "distinct (map fst kv)"
    using holds_unique_storeD by blast
  from kv(2) have "length (filter (\<lambda>p. fst p = k) kv) \<le> 1"
    by (rule at_most_one_entry)
  with kv(1) show "\<exists>kv. kv_file ?fs = Some (Pickle kv) \<and> length (filter (\<lambda>p. fst p = k) kv) \<le> 1"
    by blast
qed

text \<open>
  C10. \<open>get\<close> of a key that is present on a file holding the dictionary \<open>kv\<close> opens
  the file for writing and dumps \<open>kv\<close>, the dictionary it read, back into it; and
  every request that succeeds ends with an open for writing and a dump, of the
  dictionary that the file then holds.
\<close>

theorem get_rewrites_file:
  "(kv_file fs = Some (Pickle kv) \<and> dict_getitem kv k = Inr v \<longrightarrow>
      LocalDisk_get k fs =
        (Inr v, fs\<lparr>kv_file := Some (Pickle kv), io_log := Dump kv # Open_wb # io_log fs\<rparr>)) \<and>
   (\<forall>x. fst (LocalDisk_apply r fs) = Inr x \<longrightarrow>
      (\<exists>kv'. kv_file (snd (LocalDisk_apply r fs)) = Some (Pickle kv') \<and>
         io_log (snd (LocalDisk_apply r fs)) = Dump kv' # Open_wb # io_log fs))"
proof (intro conjI impI allI)
  assume "kv_file fs = Some (Pickle kv) \<and> dict_getitem kv k = Inr v"
  then show "LocalDisk_get k fs =
        (Inr v, fs\<lparr>kv_file := Some (Pickle kv), io_log := Dump kv # Open_wb # io_log fs\<rparr>)"
    by (simp add: LocalDisk_get_def LocalDisk_safe_op_Pickle LocalDisk_op_get_Pickle
        pickle_dump_def open_wb_def)
next
  fix x
  assume "fst (LocalDisk_apply r fs) = Inr x"
  then obtain kv kv' where "snd (LocalDisk_apply r fs) = pickle_dump (Dict kv') (open_wb fs)"
    using LocalDisk_apply_success by blast
  then show "\<exists>kv'. kv_file (snd (LocalDisk_apply r fs)) = Some (Pickle kv') \<and>
         io_log (snd (LocalDisk_apply r fs)) = Dump kv' # Open_wb # io_log fs"
    by simp
qed

theorem get_rewrites_file_witness:
  "kv_file \<lparr>kv_file = Some (Pickle [(''k'', PyStr ''v'')]), io_log = []\<rparr>
     = Some (Pickle [(''k'', PyStr ''v'')]) \<and>
   dict_getitem [(''k'', PyStr ''v'')] ''k'' = Inr (PyStr ''v'') \<and>
   fst (LocalDisk_apply (Get ''k'') \<lparr>kv_file = Some (Pickle [(''k'', PyStr ''v'')]), io_log = []\<rparr>)
     = Inr (PyStr ''v'') \<and>
   LocalDisk_get ''k'' \<lparr>kv_file = Some (Pickle [(''k'', PyStr ''v'')]), io_log = []\<rparr>
     = (Inr (PyStr ''v''),
        \<lparr>kv_file = Some (Pickle [(''k'', PyStr ''v'')]),
         io_log = [Dump [(''k'', PyStr ''v'')], Open_wb]\<rparr>)"
  using get_rewrites_file
    [of "\<lparr>kv_file = Some (Pickle [(''k'', PyStr ''v'')]), io_log = []\<rparr>"
        "[(''k'', PyStr ''v'')]" "''k''" "PyStr ''v''" "Get ''k''"]
  by (simp add: dict_defs)

end
